theory Spec2Isabelle
  imports Main "HOL-Library.Word"
begin

section \<open>JavaScript strings\<close>

text \<open>
  A JavaScript string is a sequence of UTF-16 code units; \<open>slice\<close>, \<open>includes\<close>,
  \<open>replace\<close>, \<open>trim\<close> and the regular expression class \<open>\s\<close> all work on code units.
  The literals of the source are ASCII and are written through \<open>str\<close>.
\<close>

type_synonym code_unit = "16 word"
type_synonym jsstring = "code_unit list"

definition str :: "string \<Rightarrow> jsstring" where
  "str s = map (\<lambda>c. of_nat (of_char c)) s"

text \<open>\<open>s.startsWith(p)\<close> and \<open>s.includes(needle)\<close>: a contiguous occurrence.\<close>

fun startsWith :: "'a list \<Rightarrow> 'a list \<Rightarrow> bool" where
  "startsWith s [] = True"
| "startsWith [] (p # ps) = False"
| "startsWith (c # cs) (p # ps) = (c = p \<and> startsWith cs ps)"

fun str_includes :: "'a list \<Rightarrow> 'a list \<Rightarrow> bool" where
  "str_includes [] needle = startsWith [] needle"
| "str_includes (c # cs) needle = (startsWith (c # cs) needle \<or> str_includes cs needle)"

text \<open>
  \<open>s.replace(pattern, replacement)\<close> with a string pattern: only the first occurrence of
  the pattern is replaced, wherever it stands.
\<close>

fun str_replace :: "'a list \<Rightarrow> 'a list \<Rightarrow> 'a list \<Rightarrow> 'a list" where
  "str_replace [] pat rep = (if pat = [] then rep else [])"
| "str_replace (c # cs) pat rep =
     (if startsWith (c # cs) pat then rep @ drop (length pat) (c # cs)
      else c # str_replace cs pat rep)"

text \<open>
  The class \<open>\s\<close> of a JavaScript regular expression, which is also the set that
  \<open>trim\<close> removes: the WhiteSpace and LineTerminator code points of ECMAScript.
\<close>

definition is_ws :: "code_unit \<Rightarrow> bool" where
  "is_ws c = (c = 0x9 \<or> c = 0xA \<or> c = 0xB \<or> c = 0xC \<or> c = 0xD \<or> c = 0x20 \<or> c = 0xA0
     \<or> c = 0x1680 \<or> (0x2000 \<le> c \<and> c \<le> 0x200A) \<or> c = 0x2028 \<or> c = 0x2029
     \<or> c = 0x202F \<or> c = 0x205F \<or> c = 0x3000 \<or> c = 0xFEFF)"

section \<open>content.js: the extractor\<close>

text \<open>
  \<open>text.replace(/\s+/g, ' ')\<close>: every maximal run of whitespace becomes one space
  (code unit \<open>0x20\<close>).
\<close>

function replace_ws :: "jsstring \<Rightarrow> jsstring" where
  "replace_ws [] = []"
| "replace_ws (c # cs) =
     (if is_ws c then 0x20 # replace_ws (dropWhile is_ws cs) else c # replace_ws cs)"
  by pat_completeness auto
termination
  by (relation "measure length") (auto simp: length_dropWhile_le less_Suc_eq_le)

definition trim :: "jsstring \<Rightarrow> jsstring" where
  "trim s = rev (dropWhile is_ws (rev (dropWhile is_ws s)))"

text \<open>
  \<open>getVisibleText\<close> clones the body, removes the elements matching the noise selectors
  and reads \<open>innerText\<close> of the clone; those three steps are the browser's, and the
  string they produce is the parameter here. The function then cleans that string up:
  \<^verbatim>\<open>text = text.replace(/\s+/g, ' ').trim(); return text;\<close>
\<close>

definition getVisibleText :: "jsstring \<Rightarrow> jsstring" where
  "getVisibleText innerText = trim (replace_ws innerText)"

text \<open>The properties of a cleaned string, as executable predicates.\<close>

fun has_ws_run :: "jsstring \<Rightarrow> bool" where
  "has_ws_run (a # b # cs) = ((is_ws a \<and> is_ws b) \<or> has_ws_run (b # cs))"
| "has_ws_run cs = False"

definition leading_ws :: "jsstring \<Rightarrow> bool" where
  "leading_ws s = (case s of [] \<Rightarrow> False | c # cs \<Rightarrow> is_ws c)"

definition trailing_ws :: "jsstring \<Rightarrow> bool" where
  "trailing_ws s = leading_ws (rev s)"

text \<open>After the replacement, the only whitespace left is the space.\<close>

definition only_sp :: "jsstring \<Rightarrow> bool" where
  "only_sp s = (\<forall>c \<in> set s. is_ws c \<longrightarrow> c = 0x20)"

section \<open>popup.js: errors, requests and responses\<close>

text \<open>
  An exception is a value: its class and its \<open>message\<close>. \<open>new Error(msg)\<close> is
  \<open>JSError Error msg\<close>. The messages of the engine's own TypeErrors are V8's (the
  extension runs in Chrome).
\<close>

datatype error_class = Error | TypeError | SyntaxError | DOMException

datatype js_error = JSError (error_class: error_class) (message: jsstring)

definition cannot_read :: "string \<Rightarrow> jsstring" where
  "cannot_read prop =
     str (''Cannot read properties of undefined (reading '' @ [CHR 0x27] @ prop @ [CHR 0x27] @ '')'')"

text \<open>
  The parsed JSON body \<open>data\<close> of a response, with the fields the code reads, each of
  the type the API gives it. Every field is optional: \<open>None\<close> is a field that is absent
  (\<open>undefined\<close>). A generation
  response exposes \<open>candidates[0].content.parts[0].text\<close>, an error response
  \<open>error.message\<close>, a listing response \<open>models[]\<close> with \<open>name\<close> and
  \<open>supportedGenerationMethods[]\<close>.
\<close>

record part =
  part_text :: "jsstring option"

record content =
  parts :: "part list option"

record candidate =
  content :: "content option"

record api_error =
  error_message :: "jsstring option"

record model =
  name :: "jsstring option"
  supportedGenerationMethods :: "jsstring list option"

record data =
  error :: "api_error option"
  candidates :: "candidate list option"
  models :: "model list option"

text \<open>
  \<open>fetch\<close> either rejects (a transport failure) or resolves with a response;
  \<open>response.json()\<close> either rejects (the body is not JSON) or resolves with \<open>data\<close>.
  A body that is the JSON value \<open>null\<close> behaves in both functions as a body whose parsing
  rejects with a TypeError, the first property read of \<open>data\<close> being one.
\<close>

record response =
  ok :: bool
  json :: "js_error + data"

type_synonym fetch_result = "js_error + response"

text \<open>
  A request: the URL, the method and, for a POST, the payload
  \<open>{ contents: [{ parts: [{ text }] }] }\<close> as the list of its contents, each the list
  of the texts of its parts.
\<close>

datatype http_method = GET | POST

record request =
  url :: jsstring
  http_method :: http_method
  body :: "jsstring list list option"

text \<open>
  The network is the environment: what a request is answered with may depend on the
  request and on everything sent before it.
\<close>

type_synonym net = "request list \<Rightarrow> request \<Rightarrow> fetch_result"

section \<open>popup.js: the state of the popup\<close>

text \<open>
  The variables \<open>API_KEY\<close> and \<open>validModelName\<close> (\<open>None\<close> is \<open>null\<close>), the parts of the
  page the handlers write, and what has left the popup: the requests sent, the alerts
  shown, the downloads, clipboard writes and windows opened.
\<close>

type_synonym jsval = "jsstring option"

datatype effect =
  Download jsstring jsstring jsval
| ClipboardWrite jsval
| OpenWindow jsstring jsstring jsstring jsstring

record popup =
  API_KEY :: jsstring
  validModelName :: "jsstring option"
  statusText :: jsstring
  statusBackground :: jsstring
  statusColor :: jsstring
  settingsPanelHidden :: bool
  mainContentHidden :: bool
  summarizeBtnDisabled :: bool
  loaderHidden :: bool
  alerts :: "jsstring list"
  requests :: "request list"
  effects :: "effect list"

definition toggleSettings :: "popup \<Rightarrow> popup" where
  "toggleSettings s =
     (let isHidden = settingsPanelHidden s in
      if isHidden then s\<lparr>settingsPanelHidden := False, mainContentHidden := True\<rparr>
      else s\<lparr>settingsPanelHidden := True, mainContentHidden := False\<rparr>)"

definition setLoading :: "bool \<Rightarrow> popup \<Rightarrow> popup" where
  "setLoading isLoading s =
     (let s1 = s\<lparr>summarizeBtnDisabled := isLoading, loaderHidden := \<not> isLoading\<rparr> in
      if isLoading then s1\<lparr>statusBackground := str ''#e2e8f0'', statusColor := str ''#1e293b''\<rparr>
      else s1)"

definition setStatus :: "jsstring \<Rightarrow> jsstring \<Rightarrow> popup \<Rightarrow> popup" where
  "setStatus msg type s =
     (let s1 = s\<lparr>statusText := msg\<rparr> in
      if type = str ''error'' then
        s1\<lparr>statusBackground := str ''#fee2e2'', statusColor := str ''#dc2626''\<rparr>
      else if type = str ''warning'' then
        s1\<lparr>statusBackground := str ''#fef3c7'', statusColor := str ''#d97706''\<rparr>
      else s1\<lparr>statusBackground := str ''#f1f5f9'', statusColor := str ''#475569''\<rparr>)"

definition showSuccess :: "jsstring \<Rightarrow> popup \<Rightarrow> popup" where
  "showSuccess msg s =
     s\<lparr>statusBackground := str ''rgba(16, 185, 129, 0.1)'', statusText := msg,
       statusColor := str ''#10b981''\<rparr>"

definition fetch :: "net \<Rightarrow> request \<Rightarrow> popup \<Rightarrow> fetch_result \<times> popup" where
  "fetch net req s = (net (requests s) req, s\<lparr>requests := requests s @ [req]\<rparr>)"

section \<open>popup.js: checkModels\<close>

text \<open>
  The filter of \<open>checkModels\<close>:
  \<^verbatim>\<open>m.supportedGenerationMethods && m.supportedGenerationMethods.includes("generateContent")\<close>
\<close>

definition capable :: "model \<Rightarrow> bool" where
  "capable m =
     (case supportedGenerationMethods m of
        None \<Rightarrow> False
      | Some methods \<Rightarrow> str ''generateContent'' \<in> set methods)"

text \<open>
  \<^verbatim>\<open>capableModels.map(m => m.name.replace("models/", ""))\<close>: a model without a name
  makes \<open>m.name.replace\<close> a TypeError, which ends the whole map.
\<close>

fun model_names :: "model list \<Rightarrow> js_error + jsstring list" where
  "model_names [] = Inr []"
| "model_names (m # ms) =
     (case name m of
        None \<Rightarrow> Inl (JSError TypeError (cannot_read ''replace''))
      | Some n \<Rightarrow>
          (case model_names ms of
             Inl e \<Rightarrow> Inl e
           | Inr ns \<Rightarrow> Inr (str_replace n (str ''models/'') [] # ns)))"

text \<open>The body of the \<open>try\<close> block of \<open>checkModels\<close>, after \<open>fetch\<close> has settled.\<close>

definition checkModels_try :: "fetch_result \<Rightarrow> js_error + jsstring list option" where
  "checkModels_try r =
     (case r of
        Inl e \<Rightarrow> Inl e
      | Inr response \<Rightarrow>
          (case json response of
             Inl e \<Rightarrow> Inl e
           | Inr data \<Rightarrow>
               if \<not> ok response then Inr None
               else
                 (case models data of
                    Some ms \<Rightarrow>
                      (let capableModels = filter capable ms in
                       case model_names capableModels of
                         Inl e \<Rightarrow> Inl e
                       | Inr ns \<Rightarrow> Inr (Some ns))
                  | None \<Rightarrow> Inr (Some []))))"

text \<open>
  \<open>checkModels\<close>: \<open>None\<close> is the \<open>null\<close> it returns without a key, on a response that
  is not \<open>ok\<close>, and from its \<open>catch\<close> block.
\<close>

definition list_request :: "popup \<Rightarrow> request" where
  "list_request s =
     (let listEndpoint =
            str ''https://generativelanguage.googleapis.com/v1beta/models?key='' @ API_KEY s
      in \<lparr>url = listEndpoint, http_method = GET, body = None\<rparr>)"

definition checkModels :: "net \<Rightarrow> popup \<Rightarrow> jsstring list option \<times> popup" where
  "checkModels net s =
     (if API_KEY s = [] then
        (None, s\<lparr>alerts := alerts s @ [str ''Please enter an API Key first.'']\<rparr>)
      else
        (let (r, s1) = fetch net (list_request s) s
         in case checkModels_try r of
              Inl e \<Rightarrow> (None, s1)
            | Inr availableModels \<Rightarrow> (availableModels, s1)))"

section \<open>popup.js: tryGenerateContent\<close>

definition maxLength :: nat where
  "maxLength = 100000"

definition prompt :: jsstring where
  "prompt = str
     (''Please provide a **highly detailed and verbose summary** of the following web page content. ''
      @ [CHR 0x0A] @ replicate 20 CHR '' ''
      @ [CHR 0x0A] @ replicate 20 CHR '' '' @ ''Structure:''
      @ [CHR 0x0A] @ replicate 20 CHR '' '' @ ''1. **Executive Summary**: A high-level overview.''
      @ [CHR 0x0A] @ replicate 20 CHR '' ''
      @ ''2. **Key Points**: Detailed bullet points of the main arguments/facts.''
      @ [CHR 0x0A] @ replicate 20 CHR '' ''
      @ ''3. **Analysis/Details**: deep dive into the specific content.''
      @ [CHR 0x0A] @ replicate 20 CHR '' ''
      @ [CHR 0x0A] @ replicate 20 CHR '' '' @ ''Format the output with Markdown.''
      @ [CHR 0x0A] @ replicate 20 CHR '' ''
      @ [CHR 0x0A] @ replicate 20 CHR '' '' @ ''Content: '' @ [CHR 0x0A, CHR 0x0A])"

definition endpoint :: "jsstring \<Rightarrow> popup \<Rightarrow> jsstring" where
  "endpoint modelName s =
     str ''https://generativelanguage.googleapis.com/v1beta/models/'' @ modelName
       @ str '':generateContent?key='' @ API_KEY s"

text \<open>The request of \<open>tryGenerateContent\<close>: the text is cut by \<open>text.slice(0, maxLength)\<close>.\<close>

definition generate_request :: "jsstring \<Rightarrow> jsstring \<Rightarrow> popup \<Rightarrow> request" where
  "generate_request modelName text s =
     (let truncatedText = take maxLength text in
      \<lparr>url = endpoint modelName s, http_method = POST,
       body = Some [[prompt @ truncatedText]]\<rparr>)"

text \<open>\<^verbatim>\<open>data.error?.message || "Unknown API Error"\<close>\<close>

definition api_error_message :: "data \<Rightarrow> jsstring" where
  "api_error_message data =
     (case error data of
        None \<Rightarrow> str ''Unknown API Error''
      | Some er \<Rightarrow>
          (case error_message er of
             None \<Rightarrow> str ''Unknown API Error''
           | Some msg \<Rightarrow> if msg = [] then str ''Unknown API Error'' else msg))"

text \<open>
  \<^verbatim>\<open>candidates[0].content.parts[0].text\<close>, none of whose steps is guarded: reading a
  property of \<open>undefined\<close> is a TypeError. An absent \<open>text\<close> is returned as \<open>undefined\<close>.
\<close>

definition first_text :: "candidate \<Rightarrow> js_error + jsval" where
  "first_text c =
     (case content c of
        None \<Rightarrow> Inl (JSError TypeError (cannot_read ''parts''))
      | Some ct \<Rightarrow>
          (case parts ct of
             None \<Rightarrow> Inl (JSError TypeError (cannot_read ''0''))
           | Some [] \<Rightarrow> Inl (JSError TypeError (cannot_read ''text''))
           | Some (p # ps) \<Rightarrow> Inr (part_text p)))"

text \<open>What \<open>tryGenerateContent\<close> does with the settled \<open>fetch\<close>.\<close>

definition read_generation :: "fetch_result \<Rightarrow> js_error + jsval" where
  "read_generation r =
     (case r of
        Inl e \<Rightarrow> Inl e
      | Inr response \<Rightarrow>
          (case json response of
             Inl e \<Rightarrow> Inl e
           | Inr data \<Rightarrow>
               if \<not> ok response then Inl (JSError Error (api_error_message data))
               else
                 (case candidates data of
                    Some (c # cs) \<Rightarrow> first_text c
                  | Some [] \<Rightarrow> Inl (JSError Error (str ''No summary returned from Gemini.''))
                  | None \<Rightarrow> Inl (JSError Error (str ''No summary returned from Gemini.'')))))"

definition tryGenerateContent ::
  "net \<Rightarrow> jsstring \<Rightarrow> jsstring \<Rightarrow> popup \<Rightarrow> (js_error + jsval) \<times> popup" where
  "tryGenerateContent net modelName text s =
     (let (r, s1) = fetch net (generate_request modelName text s) s
      in (read_generation r, s1))"

section \<open>popup.js: callGeminiAPI\<close>

definition preferredModels :: "jsstring list" where
  "preferredModels = [str ''gemini-1.5-flash'', str ''gemini-1.5-flash-latest'', str ''gemini-pro'']"

text \<open>\<^verbatim>\<open>if (validModelName) { modelsToTry = [validModelName]; }\<close>: \<open>null\<close> and the empty
  string are falsy.\<close>

definition modelsToTry :: "popup \<Rightarrow> jsstring list" where
  "modelsToTry s =
     (case validModelName s of
        None \<Rightarrow> preferredModels
      | Some m \<Rightarrow> if m = [] then preferredModels else [m])"

text \<open>
  The test of the \<open>catch\<close> block in the loop:
  \<^verbatim>\<open>!e.message.includes("not found") && !e.message.includes("not supported")\<close>
\<close>

definition profound :: "js_error \<Rightarrow> bool" where
  "profound e =
     (\<not> str_includes (message e) (str ''not found'')
      \<and> \<not> str_includes (message e) (str ''not supported''))"

text \<open>
  The \<open>for\<close> loop over \<open>modelsToTry\<close>, with \<open>lastError\<close> as it stands. The loop is left
  by the \<open>return\<close>, by the \<open>throw\<close>, or at its end.
\<close>

datatype loop_exit = Returned jsval | Threw js_error | Finished "js_error option"

fun try_models ::
  "net \<Rightarrow> jsstring list \<Rightarrow> jsstring \<Rightarrow> js_error option \<Rightarrow> popup \<Rightarrow> loop_exit \<times> popup" where
  "try_models net [] text lastError s = (Finished lastError, s)"
| "try_models net (model # rest) text lastError s =
     (case tryGenerateContent net model text s of
        (Inr summary, s1) \<Rightarrow> (Returned summary, s1)
      | (Inl e, s1) \<Rightarrow>
          if profound e then (Threw e, s1)
          else try_models net rest text (Some e) s1)"

text \<open>\<^verbatim>\<open>lastError?.message || "Unknown"\<close>\<close>

definition last_error_message :: "js_error option \<Rightarrow> jsstring" where
  "last_error_message lastError =
     (case lastError of
        None \<Rightarrow> str ''Unknown''
      | Some e \<Rightarrow> if message e = [] then str ''Unknown'' else message e)"

definition no_working_model :: "js_error option \<Rightarrow> js_error" where
  "no_working_model lastError =
     JSError Error
       (str ''Could not find any working Gemini model. Last error: ''
        @ last_error_message lastError)"

text \<open>The second step of \<open>callGeminiAPI\<close>, from \<open>setStatus("Finding compatible model...")\<close> on.\<close>

definition discover ::
  "net \<Rightarrow> jsstring \<Rightarrow> js_error option \<Rightarrow> popup \<Rightarrow> (js_error + jsval) \<times> popup" where
  "discover net text lastError s =
     (let s1 = setStatus (str ''Finding compatible model...'') (str ''warning'') s;
          (availableModels, s2) = checkModels net s1
      in case availableModels of
           Some (fallbackModel # others) \<Rightarrow>
             (case tryGenerateContent net fallbackModel text s2 of
                (Inr result, s3) \<Rightarrow> (Inr result, s3\<lparr>validModelName := Some fallbackModel\<rparr>)
              | (Inl e, s3) \<Rightarrow> (Inl (no_working_model (Some e)), s3))
         | Some [] \<Rightarrow> (Inl (no_working_model lastError), s2)
         | None \<Rightarrow> (Inl (no_working_model lastError), s2))"

definition callGeminiAPI ::
  "net \<Rightarrow> jsstring \<Rightarrow> popup \<Rightarrow> (js_error + jsval) \<times> popup" where
  "callGeminiAPI net text s =
     (case try_models net (modelsToTry s) text None s of
        (Returned summary, s1) \<Rightarrow> (Inr summary, s1)
      | (Threw e, s1) \<Rightarrow> (Inl e, s1)
      | (Finished lastError, s1) \<Rightarrow> discover net text lastError s1)"

section \<open>popup.js: handleSummarize\<close>

text \<open>
  What the browser gives the handler: the id of the active tab (if there is one), what
  the content script answers to \<open>GET_CONTENT\<close> (the call may reject, the answer may be
  \<open>undefined\<close>), the two checkboxes, and whether the clipboard refuses the write.
\<close>

record reply =
  reply_url :: jsstring
  reply_title :: jsstring
  reply_content :: jsstring

record browser =
  activeTab :: "nat option"
  sendMessage :: "js_error + reply option"
  saveFile :: bool
  copyClipboard :: bool
  clipboardError :: "js_error option"

definition could_not_extract :: js_error where
  "could_not_extract = JSError Error (str ''Could not extract content from page.'')"

text \<open>Steps 5 and 6 of the \<open>try\<close> block: the options and the summary window.\<close>

definition deliver :: "browser \<Rightarrow> reply \<Rightarrow> jsval \<Rightarrow> popup \<Rightarrow> (js_error + unit) \<times> popup" where
  "deliver b response summary s =
     (let s1 = (if saveFile b
                then s\<lparr>effects := effects s
                       @ [Download (reply_url response) (reply_content response) summary]\<rparr>
                else s)
      in case (if copyClipboard b then clipboardError b else None) of
           Some e \<Rightarrow> (Inl e, s1)
         | None \<Rightarrow>
             (let s2 = (if copyClipboard b
                        then s1\<lparr>effects := effects s1 @ [ClipboardWrite summary]\<rparr> else s1)
              in case summary of
                   None \<Rightarrow> (Inl (JSError TypeError (cannot_read ''replace'')), s2)
                 | Some sm \<Rightarrow>
                     (let s3 = s2\<lparr>effects := effects s2
                                 @ [OpenWindow (reply_title response) (reply_url response)
                                      (reply_content response) sm]\<rparr>
                      in (Inr (), showSuccess (str ''Done! Summary ready.'') (setLoading False s3)))))"

text \<open>
  The \<open>try\<close> block of \<open>handleSummarize\<close>. The injection of \<open>content.js\<close>, whose failure
  is only logged, changes nothing of the state.
\<close>

definition handleSummarize_try :: "net \<Rightarrow> browser \<Rightarrow> popup \<Rightarrow> (js_error + unit) \<times> popup" where
  "handleSummarize_try net b s =
     (case activeTab b of
        None \<Rightarrow> (Inl (JSError Error (str ''No active tab found'')), s)
      | Some tabId \<Rightarrow>
          (case sendMessage b of
             Inl e \<Rightarrow> (Inl e, s)
           | Inr None \<Rightarrow> (Inl could_not_extract, s)
           | Inr (Some response) \<Rightarrow>
               if reply_content response = [] then (Inl could_not_extract, s)
               else
                 (let s1 = setStatus (str ''Asking Gemini...'') (str ''normal'') s
                  in case callGeminiAPI net (reply_content response) s1 of
                       (Inl e, s2) \<Rightarrow> (Inl e, s2)
                     | (Inr summary, s2) \<Rightarrow> deliver b response summary s2)))"

definition handleSummarize :: "net \<Rightarrow> browser \<Rightarrow> popup \<Rightarrow> popup" where
  "handleSummarize net b s =
     (if API_KEY s = [] then
        toggleSettings
          (setStatus (str ''Missing API Key. Click 'Settings' to add it.'') (str ''error'') s)
      else
        (let s1 = setStatus (str ''Extracting content...'') (str ''normal'') (setLoading True s)
         in case handleSummarize_try net b s1 of
              (Inr u, s2) \<Rightarrow> s2
            | (Inl err, s2) \<Rightarrow>
                setStatus (str ''Error: '' @ message err) (str ''error'') (setLoading False s2)))"

section \<open>Example states, responses and servers\<close>

text \<open>A popup that has just been opened, with the key \<open>k\<close> loaded and nothing sent yet.\<close>

definition quiet :: popup where
  "quiet = \<lparr>API_KEY = str ''k'', validModelName = None, statusText = [], statusBackground = [],
     statusColor = [], settingsPanelHidden = True, mainContentHidden = False,
     summarizeBtnDisabled = False, loaderHidden = True, alerts = [], requests = [],
     effects = []\<rparr>"

definition open_tab :: browser where
  "open_tab = \<lparr>activeTab = Some 1,
     sendMessage = Inr (Some \<lparr>reply_url = str ''https://example.org/'', reply_title = str ''Example'',
       reply_content = str ''page''\<rparr>),
     saveFile = False, copyClipboard = False, clipboardError = None\<rparr>"

definition error_response :: "jsstring \<Rightarrow> response" where
  "error_response msg =
     \<lparr>ok = False,
      json = Inr \<lparr>error = Some \<lparr>error_message = Some msg\<rparr>, candidates = None, models = None\<rparr>\<rparr>"

definition summary_response :: "jsstring \<Rightarrow> response" where
  "summary_response t =
     \<lparr>ok = True,
      json = Inr \<lparr>error = None,
        candidates = Some [\<lparr>content = Some \<lparr>parts = Some [\<lparr>part_text = Some t\<rparr>]\<rparr>\<rparr>],
        models = None\<rparr>\<rparr>"

definition listing_response :: "model list \<Rightarrow> response" where
  "listing_response ms =
     \<lparr>ok = True, json = Inr \<lparr>error = None, candidates = None, models = Some ms\<rparr>\<rparr>"

definition empty_response :: response where
  "empty_response = \<lparr>ok = True, json = Inr \<lparr>error = None, candidates = None, models = None\<rparr>\<rparr>"

definition no_candidates_response :: response where
  "no_candidates_response =
     \<lparr>ok = True, json = Inr \<lparr>error = None, candidates = Some [], models = None\<rparr>\<rparr>"

definition bare_candidate :: response where
  "bare_candidate =
     \<lparr>ok = True,
      json = Inr \<lparr>error = None, candidates = Some [\<lparr>content = None\<rparr>], models = None\<rparr>\<rparr>"

definition not_found :: jsstring where
  "not_found = str ''models/gemini-1.5-flash is not found for API version v1beta''"

definition invalid_key :: jsstring where
  "invalid_key = str ''API key not valid. Please pass a valid API key.''"

text \<open>A server that lacks gemini-1.5-flash and answers every other request with a summary.\<close>

definition flash_missing :: net where
  "flash_missing history req =
     (if url req = endpoint (str ''gemini-1.5-flash'') quiet then Inr (error_response not_found)
      else Inr (summary_response (str ''S'')))"

text \<open>
  No network at all, a server that refuses the key, and one whose answers hold no
  candidate.
\<close>

definition offline :: net where
  "offline history req = Inl (JSError TypeError (str ''Failed to fetch''))"

definition rejects_key :: net where
  "rejects_key history req = Inr (error_response invalid_key)"

definition answers_nothing :: net where
  "answers_nothing history req = Inr empty_response"

definition answers_no_candidates :: net where
  "answers_no_candidates history req = Inr no_candidates_response"

text \<open>
  A server that has none of the three preferred models, lists the given models, and
  answers a generation request for any other model with a summary.
\<close>

definition lists :: "model list \<Rightarrow> net" where
  "lists ms history req =
     (if http_method req = GET then Inr (listing_response ms)
      else if url req \<in> set (map (\<lambda>m. endpoint m quiet) preferredModels)
      then Inr (error_response not_found)
      else Inr (summary_response (str ''S'')))"

text \<open>The same server, except that no generation request succeeds and the listing fails.\<close>

definition lists_nothing :: net where
  "lists_nothing history req =
     (if http_method req = GET then Inr (error_response invalid_key)
      else Inr (error_response not_found))"

definition embedding_only :: model where
  "embedding_only = \<lparr>name = Some (str ''models/embedding-001''),
     supportedGenerationMethods = Some [str ''embedContent'']\<rparr>"

definition flash2 :: model where
  "flash2 = \<lparr>name = Some (str ''models/gemini-2.0-flash''),
     supportedGenerationMethods = Some [str ''generateContent'', str ''countTokens'']\<rparr>"

definition pro2 :: model where
  "pro2 = \<lparr>name = Some (str ''models/gemini-2.0-pro''),
     supportedGenerationMethods = Some [str ''generateContent'']\<rparr>"

text \<open>A listed model whose name is nothing but the prefix.\<close>

definition prefix_only :: model where
  "prefix_only = \<lparr>name = Some (str ''models/''),
     supportedGenerationMethods = Some [str ''generateContent'']\<rparr>"

text \<open>A server that lists the given models and has none of them, nor any other.\<close>

definition lists_unusable :: "model list \<Rightarrow> net" where
  "lists_unusable ms history req =
     (if http_method req = GET then Inr (listing_response ms)
      else Inr (error_response not_found))"

section \<open>The extractor cleans its text\<close>


lemma replace_ws_leading: "leading_ws (replace_ws s) = leading_ws s"
  by (cases s) (auto simp: leading_ws_def is_ws_def)

lemma has_ws_run_Cons: "has_ws_run (a # s) = ((is_ws a \<and> leading_ws s) \<or> has_ws_run s)"
  by (cases s) (auto simp: leading_ws_def)

lemma leading_dropWhile: "\<not> leading_ws (dropWhile is_ws s)"
  by (induction s) (auto simp: leading_ws_def)

lemma replace_ws_no_run: "\<not> has_ws_run (replace_ws s)"
  by (induction s rule: replace_ws.induct)
     (auto simp: has_ws_run_Cons replace_ws_leading leading_dropWhile)

lemma leading_ws_append: "leading_ws p \<Longrightarrow> leading_ws (p @ s)"
  by (cases p) (auto simp: leading_ws_def)

lemma has_ws_run_append_left: "has_ws_run p \<Longrightarrow> has_ws_run (p @ s)"
  by (induction p) (auto simp: has_ws_run_Cons leading_ws_append)

lemma has_ws_run_append_right: "has_ws_run s \<Longrightarrow> has_ws_run (p @ s)"
  by (induction p) (auto simp: has_ws_run_Cons)

lemma trim_decomp: "\<exists>p q. s = p @ trim s @ q"
proof -
  let ?t = "dropWhile is_ws s"
  have "s = takeWhile is_ws s @ ?t" by simp
  moreover have "rev ?t = takeWhile is_ws (rev ?t) @ dropWhile is_ws (rev ?t)" by simp
  then have "?t = trim s @ rev (takeWhile is_ws (rev ?t))"
    unfolding trim_def by (metis rev_append rev_rev_ident)
  ultimately have "s = takeWhile is_ws s @ trim s @ rev (takeWhile is_ws (rev ?t))" by simp
  then show ?thesis by blast
qed

lemma trim_no_run: "\<not> has_ws_run s \<Longrightarrow> \<not> has_ws_run (trim s)"
proof -
  assume a: "\<not> has_ws_run s"
  obtain p q where "s = p @ trim s @ q" using trim_decomp by blast
  then show ?thesis
    using a has_ws_run_append_left has_ws_run_append_right by metis
qed

lemma trim_leading: "\<not> leading_ws (trim s)"
proof -
  let ?t = "dropWhile is_ws s"
  show ?thesis
  proof (cases "trim s")
    case Nil
    then show ?thesis by (simp add: leading_ws_def)
  next
    case (Cons c cs)
    have "?t = trim s @ rev (takeWhile is_ws (rev ?t))"
      unfolding trim_def by (metis rev_append rev_rev_ident takeWhile_dropWhile_id)
    with Cons have e: "?t = c # (cs @ rev (takeWhile is_ws (rev ?t)))" by simp
    then have "hd ?t = c" "?t \<noteq> []" by (metis list.sel(1), metis list.distinct(1))
    then have "\<not> is_ws c" using hd_dropWhile by metis
    with Cons show ?thesis by (simp add: leading_ws_def)
  qed
qed

lemma trim_trailing: "\<not> trailing_ws (trim s)"
  unfolding trailing_ws_def trim_def by (simp add: leading_dropWhile)


lemma replace_ws_only_sp: "only_sp (replace_ws s)"
  by (induction s rule: replace_ws.induct) (auto simp: only_sp_def)

lemma trim_only_sp: "only_sp s \<Longrightarrow> only_sp (trim s)"
  unfolding only_sp_def trim_def by (auto dest!: set_dropWhileD)

lemma replace_ws_id: "only_sp s \<Longrightarrow> \<not> has_ws_run s \<Longrightarrow> replace_ws s = s"
proof (induction s rule: replace_ws.induct)
  case 1
  then show ?case by simp
next
  case (2 c cs)
  show ?case
  proof (cases "is_ws c")
    case True
    with "2.prems" have c: "c = 0x20" and nl: "\<not> leading_ws cs" and nr: "\<not> has_ws_run cs"
      and os: "only_sp cs"
      by (auto simp: only_sp_def has_ws_run_Cons)
    from nl have d: "dropWhile is_ws cs = cs" by (cases cs) (auto simp: leading_ws_def)
    with "2.IH"(1) True os nr c show ?thesis by simp
  next
    case False
    with "2.prems" have "only_sp cs" "\<not> has_ws_run cs" by (auto simp: only_sp_def has_ws_run_Cons)
    with "2.IH"(2) False show ?thesis by simp
  qed
qed

lemma trim_id: "\<not> leading_ws s \<Longrightarrow> \<not> trailing_ws s \<Longrightarrow> trim s = s"
proof -
  assume a: "\<not> leading_ws s" "\<not> trailing_ws s"
  then have "dropWhile is_ws s = s" by (cases s) (auto simp: leading_ws_def)
  moreover from a have "dropWhile is_ws (rev s) = rev s"
    by (cases "rev s") (auto simp: leading_ws_def trailing_ws_def)
  ultimately show ?thesis by (simp add: trim_def)
qed

text \<open>
  Claim C9. For every string the document yields, the output of the extractor has no
  run of two or more whitespace code units, starts and ends with no whitespace, and
  the clean-up step (collapse the runs, then trim) applied to that output returns it
  unchanged.
\<close>

theorem getVisibleText_clean:
  "\<not> has_ws_run (getVisibleText innerText)
   \<and> \<not> leading_ws (getVisibleText innerText)
   \<and> \<not> trailing_ws (getVisibleText innerText)
   \<and> trim (replace_ws (getVisibleText innerText)) = getVisibleText innerText"
proof -
  let ?t = "getVisibleText innerText"
  have r: "\<not> has_ws_run ?t"
    unfolding getVisibleText_def by (rule trim_no_run) (rule replace_ws_no_run)
  have l: "\<not> leading_ws ?t" unfolding getVisibleText_def by (rule trim_leading)
  have t: "\<not> trailing_ws ?t" unfolding getVisibleText_def by (rule trim_trailing)
  have "only_sp ?t" unfolding getVisibleText_def by (rule trim_only_sp) (rule replace_ws_only_sp)
  from this r have "replace_ws ?t = ?t" by (rule replace_ws_id)
  with l t have "trim (replace_ws ?t) = ?t" by (simp add: trim_id)
  with r l t show ?thesis by simp
qed

lemma getVisibleText_example:
  "getVisibleText (str (''  Hello'' @ [CHR 0x0A, CHR 0x09] @ ''  world  '')) = str ''Hello world''"
  by (simp add: getVisibleText_def trim_def str_def is_ws_def)

section \<open>Lemmas about the calls\<close>


lemma tryGenerateContent_eq:
  "tryGenerateContent net m text s =
     (read_generation (net (requests s) (generate_request m text s)),
      s\<lparr>requests := requests s @ [generate_request m text s]\<rparr>)"
  by (simp add: tryGenerateContent_def fetch_def)


lemma try_models_append:
  "try_models net (pre @ ms) text le s =
     (case try_models net pre text le s of
        (Finished le1, s1) \<Rightarrow> try_models net ms text le1 s1
      | other \<Rightarrow> other)"
  by (induction pre arbitrary: le s) (auto split: prod.splits sum.splits loop_exit.splits)


lemma no_summary_profound: "profound (JSError Error (str ''No summary returned from Gemini.''))"
  by (simp add: profound_def str_def)


lemma try_models_frame:
  "try_models net ms text le s = (r, s') \<Longrightarrow> \<exists>rs. s' = s\<lparr>requests := requests s @ rs\<rparr>"
proof (induction ms arbitrary: le s)
  case Nil
  then show ?case by (intro exI[of _ "[]"]) simp
next
  case (Cons m ms)
  let ?g = "generate_request m text s"
  let ?s1 = "s\<lparr>requests := requests s @ [?g]\<rparr>"
  show ?case
  proof (cases "read_generation (net (requests s) ?g)")
    case (Inr summary)
    with Cons.prems have "s' = ?s1" by (simp add: tryGenerateContent_eq)
    then show ?thesis by blast
  next
    case (Inl e)
    show ?thesis
    proof (cases "profound e")
      case True
      with Inl Cons.prems have "s' = ?s1" by (simp add: tryGenerateContent_eq)
      then show ?thesis by blast
    next
      case False
      with Inl Cons.prems have "try_models net ms text (Some e) ?s1 = (r, s')"
        by (simp add: tryGenerateContent_eq)
      from Cons.IH [OF this] obtain rs where "s' = ?s1\<lparr>requests := requests ?s1 @ rs\<rparr>" by blast
      then have "s' = s\<lparr>requests := requests s @ (?g # rs)\<rparr>" by simp
      then show ?thesis by blast
    qed
  qed
qed

lemma try_models_keeps:
  assumes "try_models net ms text le s = (r, s')"
  shows "validModelName s' = validModelName s" and "API_KEY s' = API_KEY s"
  using try_models_frame [OF assms] by auto


lemma modelsToTry_nonempty: "modelsToTry s \<noteq> []"
  by (simp add: modelsToTry_def preferredModels_def split: option.splits)

lemma modelsToTry_key: "modelsToTry (s\<lparr>requests := rs\<rparr>) = modelsToTry s"
  by (simp add: modelsToTry_def)

lemma checkModels_eq:
  "API_KEY s \<noteq> [] \<Longrightarrow>
   checkModels net s =
     (case checkModels_try (net (requests s) (list_request s)) of
        Inl e \<Rightarrow> None | Inr availableModels \<Rightarrow> availableModels,
      s\<lparr>requests := requests s @ [list_request s]\<rparr>)"
  by (simp add: checkModels_def fetch_def split: sum.splits)


lemma setStatus_keeps [simp]:
  "validModelName (setStatus msg type s) = validModelName s"
  "API_KEY (setStatus msg type s) = API_KEY s"
  "requests (setStatus msg type s) = requests s"
  "effects (setStatus msg type s) = effects s"
  "alerts (setStatus msg type s) = alerts s"
  by (simp_all add: setStatus_def Let_def)

lemma callGeminiAPI_returned:
  "try_models net (modelsToTry s) text None s = (Returned summary, s1) \<Longrightarrow>
   callGeminiAPI net text s = (Inr summary, s1)"
  by (simp add: callGeminiAPI_def)

lemma callGeminiAPI_threw:
  "try_models net (modelsToTry s) text None s = (Threw e, s1) \<Longrightarrow>
   callGeminiAPI net text s = (Inl e, s1)"
  by (simp add: callGeminiAPI_def)

lemma callGeminiAPI_finished:
  "try_models net (modelsToTry s) text None s = (Finished lastError, s1) \<Longrightarrow>
   callGeminiAPI net text s = discover net text lastError s1"
  by (simp add: callGeminiAPI_def)



lemma list_request_setStatus [simp]:
  "list_request (setStatus msg type s) = list_request s"
  by (simp add: list_request_def)

lemma model_names_named:
  "\<forall>m \<in> set ms. name m \<noteq> None \<Longrightarrow>
   model_names ms = Inr (map (\<lambda>m. str_replace (the (name m)) (str ''models/'') []) ms)"
  by (induction ms) auto

lemma model_names_nameless:
  "isl (model_names ms) = (\<exists>m \<in> set ms. name m = None)"
  by (induction ms) (auto split: option.splits sum.splits)

lemma checkModels_no_candidates:
  assumes "checkModels net s = (availableModels, s2)"
  shows "case net (requests s) (list_request s) of
           Inl e \<Rightarrow> availableModels = None
         | Inr resp \<Rightarrow>
             (\<not> ok resp \<or> isl (json resp)
              \<or> (\<exists>d ms m. json resp = Inr d \<and> models d = Some ms \<and> m \<in> set ms
                      \<and> capable m \<and> name m = None))
             \<longrightarrow> availableModels = None"
proof (cases "API_KEY s = []")
  case True
  with assms have "availableModels = None" by (simp add: checkModels_def)
  then show ?thesis by (simp split: sum.splits)
next
  case False
  let ?r = "net (requests s) (list_request s)"
  from False assms have a: "availableModels = (case checkModels_try ?r of Inl e \<Rightarrow> None | Inr x \<Rightarrow> x)"
    by (simp add: checkModels_eq)
  show ?thesis
  proof (cases ?r)
    case (Inl e)
    with a show ?thesis by (simp add: checkModels_try_def)
  next
    case (Inr resp)
    have "availableModels = None"
      if "\<not> ok resp \<or> isl (json resp)
              \<or> (\<exists>d ms m. json resp = Inr d \<and> models d = Some ms \<and> m \<in> set ms
                      \<and> capable m \<and> name m = None)"
    proof -
      from that consider "isl (json resp)" | d where "json resp = Inr d" "\<not> ok resp"
        | d ms m where "json resp = Inr d" "ok resp" "models d = Some ms" "m \<in> set ms"
            "capable m" "name m = None"
        by (cases "json resp"; cases "ok resp") auto
      then show ?thesis
      proof cases
        case 1
        with a Inr show ?thesis by (auto simp: checkModels_try_def isl_def)
      next
        case 2
        with a Inr show ?thesis by (simp add: checkModels_try_def)
      next
        case 3
        then have "isl (model_names (filter capable ms))"
          by (auto simp: model_names_nameless)
        then obtain e where "model_names (filter capable ms) = Inl e" by (auto simp: isl_def)
        with 3 a Inr show ?thesis by (simp add: checkModels_try_def)
      qed
    qed
    with Inr show ?thesis by simp
  qed
qed

lemma startsWith_append: "startsWith (p @ s) p"
  by (induction p) auto

lemma str_replace_prefix: "str_replace (p @ s) p [] = s"
proof (cases p)
  case Nil
  then show ?thesis by (cases s) auto
next
  case (Cons a p')
  have "startsWith (a # p' @ s) (a # p')" using startsWith_append [of "a # p'" s] by simp
  with Cons show ?thesis by simp
qed

lemma str_includes_iff: "str_includes s n = (\<exists>p q. s = p @ n @ q)"
proof -
  have sw: "startsWith s n = (\<exists>q. s = n @ q)" for s n :: "'a list"
    by (induction s n rule: startsWith.induct) auto
  show ?thesis
  proof (induction s)
    case Nil
    then show ?case by (auto simp: sw)
  next
    case (Cons c cs)
    show ?case
    proof
      assume "str_includes (c # cs) n"
      then consider "startsWith (c # cs) n" | "str_includes cs n" by auto
      then show "\<exists>p q. c # cs = p @ n @ q"
      proof cases
        case 1
        then obtain q where "c # cs = n @ q" using sw by blast
        then have "c # cs = [] @ n @ q" by simp
        then show ?thesis by blast
      next
        case 2
        with Cons obtain p q where "cs = p @ n @ q" by blast
        then have "c # cs = (c # p) @ n @ q" by simp
        then show ?thesis by blast
      qed
    next
      assume "\<exists>p q. c # cs = p @ n @ q"
      then obtain p q where e: "c # cs = p @ n @ q" by blast
      show "str_includes (c # cs) n"
      proof (cases p)
        case Nil
        with e have "startsWith (c # cs) n" using sw by auto
        then show ?thesis by simp
      next
        case (Cons a p')
        with e have "cs = p' @ n @ q" by simp
        then have "str_includes cs n" using Cons.IH by blast
        then show ?thesis by simp
      qed
    qed
  qed
qed

lemma str_replace_absent: "\<not> str_includes s p \<Longrightarrow> str_replace s p r = s"
  by (induction s) (auto split: if_splits)

lemma capable_iff:
  "capable m = (\<exists>methods. supportedGenerationMethods m = Some methods
                  \<and> str ''generateContent'' \<in> set methods)"
  by (simp add: capable_def split: option.splits)


section \<open>Running the examples\<close>

text \<open>The equations that evaluate a call on a concrete state and server.\<close>

lemmas run_defs =
  callGeminiAPI_def discover_def modelsToTry_def preferredModels_def
  tryGenerateContent_eq checkModels_def fetch_def checkModels_try_def read_generation_def
  first_text_def api_error_message_def profound_def capable_def
  no_working_model_def last_error_message_def setStatus_def Let_def
  generate_request_def list_request_def endpoint_def
  quiet_def error_response_def summary_response_def listing_response_def empty_response_def
  not_found_def invalid_key_def offline_def flash_missing_def rejects_key_def lists_def lists_nothing_def
  lists_unusable_def embedding_only_def flash2_def pro2_def prefix_only_def str_def

section \<open>Generation: an answer without candidates\<close>

text \<open>
  Claim C5. When the response to a generation request is successful and its body has no
  candidates (the field is absent, or it is the empty list), \<open>tryGenerateContent\<close> fails
  with the error \<open>No summary returned from Gemini.\<close>. Its message contains neither
  \<open>not found\<close> nor \<open>not supported\<close>, so the loop over the candidate models, wherever it
  stands, throws that error instead of going on to the next model.
\<close>

theorem no_candidates_is_fatal:
  assumes "net (requests s) (generate_request m text s) = Inr resp"
    and "ok resp" and "json resp = Inr d"
    and "candidates d = None \<or> candidates d = Some []"
  shows "tryGenerateContent net m text s
           = (Inl (JSError Error (str ''No summary returned from Gemini.'')),
              s\<lparr>requests := requests s @ [generate_request m text s]\<rparr>)
         \<and> \<not> str_includes (str ''No summary returned from Gemini.'') (str ''not found'')
         \<and> \<not> str_includes (str ''No summary returned from Gemini.'') (str ''not supported'')
         \<and> try_models net (m # rest) text lastError s
           = (Threw (JSError Error (str ''No summary returned from Gemini.'')),
              s\<lparr>requests := requests s @ [generate_request m text s]\<rparr>)"
proof -
  from assms have "read_generation (net (requests s) (generate_request m text s))
      = Inl (JSError Error (str ''No summary returned from Gemini.''))"
    by (auto simp: read_generation_def)
  then have t: "tryGenerateContent net m text s
           = (Inl (JSError Error (str ''No summary returned from Gemini.'')),
              s\<lparr>requests := requests s @ [generate_request m text s]\<rparr>)"
    by (simp add: tryGenerateContent_eq)
  moreover have "\<not> str_includes (str ''No summary returned from Gemini.'') (str ''not found'')"
    and "\<not> str_includes (str ''No summary returned from Gemini.'') (str ''not supported'')"
    using no_summary_profound by (simp_all add: profound_def)
  ultimately show ?thesis using no_summary_profound by simp
qed


theorem no_candidates_is_fatal_witness:
  "try_models answers_nothing preferredModels (str ''page'') None quiet
     = (Threw (JSError Error (str ''No summary returned from Gemini.'')),
        quiet\<lparr>requests := [generate_request (str ''gemini-1.5-flash'') (str ''page'') quiet]\<rparr>)
   \<and> try_models answers_no_candidates preferredModels (str ''page'') None quiet
     = (Threw (JSError Error (str ''No summary returned from Gemini.'')),
        quiet\<lparr>requests := [generate_request (str ''gemini-1.5-flash'') (str ''page'') quiet]\<rparr>)"
proof -
  let ?m = "str ''gemini-1.5-flash''"
  let ?rest = "[str ''gemini-1.5-flash-latest'', str ''gemini-pro'']"
  let ?absent = "\<lparr>error = None, candidates = None, models = None\<rparr>"
  let ?empty = "\<lparr>error = None, candidates = Some [], models = None\<rparr>"
  have a1: "answers_nothing (requests quiet) (generate_request ?m (str ''page'') quiet)
             = Inr empty_response"
    by (simp add: answers_nothing_def)
  have a2: "ok empty_response" by (simp add: empty_response_def)
  have a3: "json empty_response = Inr ?absent" by (simp add: empty_response_def)
  have a4: "candidates ?absent = None \<or> candidates ?absent = Some []" by simp
  have b1: "answers_no_candidates (requests quiet) (generate_request ?m (str ''page'') quiet)
             = Inr no_candidates_response"
    by (simp add: answers_no_candidates_def)
  have b2: "ok no_candidates_response" by (simp add: no_candidates_response_def)
  have b3: "json no_candidates_response = Inr ?empty" by (simp add: no_candidates_response_def)
  have b4: "candidates ?empty = None \<or> candidates ?empty = Some []" by simp
  have rq: "requests quiet = []" by (simp add: quiet_def)
  from no_candidates_is_fatal [of answers_nothing quiet ?m "str ''page''" empty_response
      ?absent ?rest None, OF a1 a2 a3 a4]
  have a: "try_models answers_nothing (?m # ?rest) (str ''page'') None quiet
     = (Threw (JSError Error (str ''No summary returned from Gemini.'')),
        quiet\<lparr>requests := requests quiet @ [generate_request ?m (str ''page'') quiet]\<rparr>)"
    by blast
  from no_candidates_is_fatal [of answers_no_candidates quiet ?m "str ''page''"
      no_candidates_response ?empty ?rest None, OF b1 b2 b3 b4]
  have b: "try_models answers_no_candidates (?m # ?rest) (str ''page'') None quiet
     = (Threw (JSError Error (str ''No summary returned from Gemini.'')),
        quiet\<lparr>requests := requests quiet @ [generate_request ?m (str ''page'') quiet]\<rparr>)"
    by blast
  from a b rq show ?thesis unfolding preferredModels_def by (simp del: try_models.simps)
qed

section \<open>Generation: the unguarded access\<close>

text \<open>
  Claim C10. There are successful responses with a non-empty list of candidates on which
  \<open>tryGenerateContent\<close> fails with a TypeError of the engine, not with an error the code
  raises itself: every response whose first candidate has no \<open>content\<close>, whose content has
  no \<open>parts\<close>, or whose list of parts is empty. (A first part without \<open>text\<close> is no
  such response: see \<open>first_part_without_text\<close> below.)
\<close>

theorem unguarded_candidate_access:
  assumes "net (requests s) (generate_request m text s) = Inr resp"
    and "ok resp" and "json resp = Inr d" and "candidates d = Some (c # cs)"
    and "content c = None
         \<or> (\<exists>ct. content c = Some ct \<and> (parts ct = None \<or> parts ct = Some []))"
  shows "\<exists>msg. fst (tryGenerateContent net m text s) = Inl (JSError TypeError msg)"
  using assms by (auto simp: tryGenerateContent_eq read_generation_def first_text_def)


theorem unguarded_candidate_access_witness:
  "fst (tryGenerateContent (\<lambda>history req. Inr bare_candidate) (str ''gemini-pro'') (str ''page'') quiet)
     = Inl (JSError TypeError (cannot_read ''parts''))"
proof -
  let ?net = "\<lambda>history req. Inr bare_candidate :: fetch_result"
  have "\<exists>msg. fst (tryGenerateContent ?net (str ''gemini-pro'') (str ''page'') quiet)
          = Inl (JSError TypeError msg)"
    by (rule unguarded_candidate_access [where resp = bare_candidate and c = "\<lparr>content = None\<rparr>"
          and cs = "[]" and d = "\<lparr>error = None, candidates = Some [\<lparr>content = None\<rparr>], models = None\<rparr>"])
       (simp_all add: bare_candidate_def)
  then show ?thesis
    by (simp add: tryGenerateContent_eq read_generation_def first_text_def bare_candidate_def)
qed


text \<open>When the first part is there and has no \<open>text\<close>, the call returns \<open>undefined\<close>.\<close>

lemma first_part_without_text:
  assumes "net (requests s) (generate_request m text s) = Inr resp"
    and "ok resp" and "json resp = Inr d" and "candidates d = Some (c # cs)"
    and "content c = Some ct" and "parts ct = Some (p # ps)" and "part_text p = None"
  shows "fst (tryGenerateContent net m text s) = Inr None"
  using assms by (simp add: tryGenerateContent_eq read_generation_def first_text_def)

section \<open>handleSummarize without a key\<close>

text \<open>
  Claim C3. When the key is the empty string, \<open>handleSummarize\<close> only reports the missing
  key (the status line, in the error style, and the settings panel toggled) and returns:
  no request is sent, neither for a generation nor for the list of models, and nothing
  else leaves the popup.
\<close>

theorem missing_key_no_network:
  assumes "API_KEY s = []"
  shows "handleSummarize net b s
           = toggleSettings
               (setStatus (str ''Missing API Key. Click 'Settings' to add it.'') (str ''error'') s)
         \<and> statusText (handleSummarize net b s) = str ''Missing API Key. Click 'Settings' to add it.''
         \<and> requests (handleSummarize net b s) = requests s
         \<and> effects (handleSummarize net b s) = effects s"
  using assms by (simp add: handleSummarize_def toggleSettings_def setStatus_def Let_def)


theorem missing_key_no_network_witness:
  "requests (handleSummarize flash_missing open_tab (quiet\<lparr>API_KEY := []\<rparr>)) = []
   \<and> statusText (handleSummarize flash_missing open_tab (quiet\<lparr>API_KEY := []\<rparr>))
       = str ''Missing API Key. Click 'Settings' to add it.''
   \<and> \<not> settingsPanelHidden (handleSummarize flash_missing open_tab (quiet\<lparr>API_KEY := []\<rparr>))
   \<and> map url (requests (handleSummarize flash_missing open_tab quiet))
       = [endpoint (str ''gemini-1.5-flash'') quiet, endpoint (str ''gemini-1.5-flash-latest'') quiet]"
proof -
  have k: "API_KEY (quiet\<lparr>API_KEY := []\<rparr>) = []" by simp
  have with_key: "map url (requests (handleSummarize flash_missing open_tab quiet))
       = [endpoint (str ''gemini-1.5-flash'') quiet, endpoint (str ''gemini-1.5-flash-latest'') quiet]"
    by (simp add: handleSummarize_def handleSummarize_try_def deliver_def open_tab_def
          setLoading_def showSuccess_def run_defs)
  from missing_key_no_network [OF k, of flash_missing open_tab] with_key
  show ?thesis by (simp add: quiet_def toggleSettings_def setStatus_def Let_def)
qed

section \<open>Generation: the text is cut to its budget\<close>

text \<open>
  Claim C8. The one request that \<open>tryGenerateContent\<close> sends carries, after the prompt,
  exactly the first 100000 code units of the text: a text of at most 100000 code units
  whole, a longer one cut to exactly 100000.
\<close>

theorem generation_request_truncates:
  "requests (snd (tryGenerateContent net modelName text s))
     = requests s @ [generate_request modelName text s]
   \<and> body (generate_request modelName text s) = Some [[prompt @ take 100000 text]]
   \<and> (length text \<le> 100000 \<longrightarrow> take 100000 text = text)
   \<and> (100000 < length text \<longrightarrow> length (take 100000 text) = 100000)"
  by (simp add: tryGenerateContent_eq generate_request_def maxLength_def)

theorem generation_request_truncates_witness:
  "body (generate_request (str ''gemini-pro'') (str ''abc'') quiet) = Some [[prompt @ str ''abc'']]
   \<and> body (generate_request (str ''gemini-pro'') (replicate 100001 0x41) quiet)
       = Some [[prompt @ replicate 100000 0x41]]
   \<and> length (take 100000 (replicate 100001 (0x41 :: code_unit))) = 100000"
proof -
  let ?net = "\<lambda>h r. Inl (JSError TypeError [])"
  have short: "length (str ''abc'') \<le> 100000" by (simp add: str_def)
  have long: "100000 < length (replicate 100001 (0x41 :: code_unit))" by simp
  from generation_request_truncates [of ?net "str ''gemini-pro''" "str ''abc''" quiet] short
  have 1: "body (generate_request (str ''gemini-pro'') (str ''abc'') quiet)
             = Some [[prompt @ str ''abc'']]"
    by metis
  from generation_request_truncates [of ?net "str ''gemini-pro''" "replicate 100001 0x41" quiet] long
  have 2: "body (generate_request (str ''gemini-pro'') (replicate 100001 0x41) quiet)
             = Some [[prompt @ take 100000 (replicate 100001 0x41)]]"
    and 3: "length (take 100000 (replicate 100001 (0x41 :: code_unit))) = 100000"
    by blast+
  from 1 2 3 show ?thesis by simp
qed

section \<open>The loop over the candidate models\<close>

text \<open>
  Claim C4. In the loop over the candidate models, when the models before a candidate
  have all failed with a retryable error and the generation for the candidate fails: if
  the message of the failure contains \<open>not found\<close> or \<open>not supported\<close>, the loop goes on with
  the models after the candidate, that failure being \<open>lastError\<close>; if it contains neither
  (whatever the failure is: an API error, a transport failure, a body that is not JSON),
  the loop throws it and \<open>callGeminiAPI\<close> fails with that very error, the request for the
  candidate being the last one sent. (The one attempt that follows a discovery is not
  part of this loop: see claim C7.)
\<close>

theorem sweep_failure_classification:
  assumes "modelsToTry s = pre @ model # rest"
    and "try_models net pre text None s = (Finished lastError, s1)"
    and "tryGenerateContent net model text s1 = (Inl e, s2)"
  shows "requests s2 = requests s1 @ [generate_request model text s1]
         \<and> (if str_includes (message e) (str ''not found'')
                \<or> str_includes (message e) (str ''not supported'')
             then try_models net (modelsToTry s) text None s
                    = try_models net rest text (Some e) s2
             else try_models net (modelsToTry s) text None s = (Threw e, s2)
                  \<and> callGeminiAPI net text s = (Inl e, s2))"
proof -
  from assms(3) have r: "requests s2 = requests s1 @ [generate_request model text s1]"
    by (auto simp: tryGenerateContent_eq)
  from assms have t: "try_models net (modelsToTry s) text None s
      = (if profound e then (Threw e, s2) else try_models net rest text (Some e) s2)"
    by (simp add: try_models_append)
  show ?thesis
  proof (cases "profound e")
    case True
    with t have "try_models net (modelsToTry s) text None s = (Threw e, s2)" by simp
    with True r show ?thesis by (simp add: callGeminiAPI_threw profound_def)
  next
    case False
    with t r show ?thesis by (auto simp: profound_def)
  qed
qed

theorem sweep_failure_classification_witness:
  "try_models flash_missing preferredModels (str ''page'') None quiet
     = try_models flash_missing [str ''gemini-1.5-flash-latest'', str ''gemini-pro''] (str ''page'')
         (Some (JSError Error not_found))
         (quiet\<lparr>requests := [generate_request (str ''gemini-1.5-flash'') (str ''page'') quiet]\<rparr>)
   \<and> callGeminiAPI rejects_key (str ''page'') quiet
     = (Inl (JSError Error invalid_key),
        quiet\<lparr>requests := [generate_request (str ''gemini-1.5-flash'') (str ''page'') quiet]\<rparr>)
   \<and> callGeminiAPI offline (str ''page'') quiet
     = (Inl (JSError TypeError (str ''Failed to fetch'')),
        quiet\<lparr>requests := [generate_request (str ''gemini-1.5-flash'') (str ''page'') quiet]\<rparr>)"
proof -
  let ?flash = "str ''gemini-1.5-flash''"
  let ?rest = "[str ''gemini-1.5-flash-latest'', str ''gemini-pro'']"
  let ?s2 = "quiet\<lparr>requests := [generate_request ?flash (str ''page'') quiet]\<rparr>"
  have m: "modelsToTry quiet = [] @ ?flash # ?rest"
    by (simp add: modelsToTry_def quiet_def preferredModels_def)
  have p: "try_models net [] (str ''page'') None quiet = (Finished None, quiet)" for net
    by simp
  have rq: "requests quiet = []" by (simp add: quiet_def)
  have g1: "tryGenerateContent flash_missing ?flash (str ''page'') quiet
              = (Inl (JSError Error not_found), ?s2)"
    by (simp add: tryGenerateContent_eq rq flash_missing_def generate_request_def
          read_generation_def error_response_def api_error_message_def not_found_def str_def)
  have g2: "tryGenerateContent rejects_key ?flash (str ''page'') quiet
              = (Inl (JSError Error invalid_key), ?s2)"
    by (simp add: tryGenerateContent_eq rq rejects_key_def
          read_generation_def error_response_def api_error_message_def invalid_key_def str_def)
  have g3: "tryGenerateContent offline ?flash (str ''page'') quiet
              = (Inl (JSError TypeError (str ''Failed to fetch'')), ?s2)"
    by (simp add: tryGenerateContent_eq rq offline_def read_generation_def)
  have i3: "\<not> (str_includes (message (JSError TypeError (str ''Failed to fetch''))) (str ''not found'')
              \<or> str_includes (message (JSError TypeError (str ''Failed to fetch'')))
                   (str ''not supported''))"
    by (simp add: str_def)
  have i1: "str_includes (message (JSError Error not_found)) (str ''not found'')"
    by (simp add: not_found_def str_def)
  have i2: "\<not> (str_includes (message (JSError Error invalid_key)) (str ''not found'')
              \<or> str_includes (message (JSError Error invalid_key)) (str ''not supported''))"
    by (simp add: invalid_key_def str_def)
  from sweep_failure_classification [OF m p g1] i1
  have a: "try_models flash_missing (modelsToTry quiet) (str ''page'') None quiet
     = try_models flash_missing ?rest (str ''page'') (Some (JSError Error not_found)) ?s2"
    by presburger
  from sweep_failure_classification [OF m p g2] i2
  have b: "callGeminiAPI rejects_key (str ''page'') quiet = (Inl (JSError Error invalid_key), ?s2)"
    by presburger
  from sweep_failure_classification [OF m p g3] i3
  have c: "callGeminiAPI offline (str ''page'') quiet
             = (Inl (JSError TypeError (str ''Failed to fetch'')), ?s2)"
    by presburger
  from a b c m show ?thesis by (simp del: try_models.simps add: preferredModels_def)
qed

section \<open>Discovery that finds nothing\<close>

text \<open>
  Claim C7. Once the loop over the candidate models has ended without a result,
  \<open>checkModels\<close> is called. A listing request that is rejected, a response that is not
  \<open>ok\<close>, a body that is not JSON and a listing with a capable model that has no name
  all make it return \<open>null\<close>: nothing is thrown. When
  it returns \<open>null\<close> or the empty list, \<open>callGeminiAPI\<close> fails with the one error
  \<open>Could not find any working Gemini model. Last error: \<close> followed by the message
  of \<open>lastError\<close> (by \<open>Unknown\<close> when there is no \<open>lastError\<close> or its message is empty);
  when it returns a model and the generation with that model fails, \<open>callGeminiAPI\<close>
  fails with the same error, carrying the message of that last failure.
\<close>

theorem discovery_failure_is_no_working_model:
  assumes "try_models net (modelsToTry s) text None s = (Finished lastError, s1)"
    and "checkModels net (setStatus (str ''Finding compatible model...'') (str ''warning'') s1)
           = (availableModels, s2)"
  shows "(case net (requests s1) (list_request s1) of
            Inl e \<Rightarrow> availableModels = None
          | Inr resp \<Rightarrow>
              (\<not> ok resp \<or> isl (json resp)
               \<or> (\<exists>d ms m. json resp = Inr d \<and> models d = Some ms \<and> m \<in> set ms
                       \<and> capable m \<and> name m = None))
              \<longrightarrow> availableModels = None)
         \<and> (case availableModels of
              Some (fallbackModel # others) \<Rightarrow>
                (\<forall>e s3. tryGenerateContent net fallbackModel text s2 = (Inl e, s3) \<longrightarrow>
                   callGeminiAPI net text s
                     = (Inl (JSError Error
                          (str ''Could not find any working Gemini model. Last error: ''
                           @ (if message e = [] then str ''Unknown'' else message e))), s3))
            | _ \<Rightarrow>
                callGeminiAPI net text s
                  = (Inl (JSError Error
                       (str ''Could not find any working Gemini model. Last error: ''
                        @ (case lastError of
                             None \<Rightarrow> str ''Unknown''
                           | Some e \<Rightarrow> if message e = [] then str ''Unknown'' else message e))),
                     s2))"
proof -
  from checkModels_no_candidates [OF assms(2)]
  have a: "case net (requests s1) (list_request s1) of
            Inl e \<Rightarrow> availableModels = None
          | Inr resp \<Rightarrow>
              (\<not> ok resp \<or> isl (json resp)
               \<or> (\<exists>d ms m. json resp = Inr d \<and> models d = Some ms \<and> m \<in> set ms
                       \<and> capable m \<and> name m = None))
              \<longrightarrow> availableModels = None"
    by simp
  have c: "callGeminiAPI net text s = discover net text lastError s1"
    using assms(1) by (rule callGeminiAPI_finished)
  have b: "case availableModels of
              Some (fallbackModel # others) \<Rightarrow>
                (\<forall>e s3. tryGenerateContent net fallbackModel text s2 = (Inl e, s3) \<longrightarrow>
                   callGeminiAPI net text s
                     = (Inl (JSError Error
                          (str ''Could not find any working Gemini model. Last error: ''
                           @ (if message e = [] then str ''Unknown'' else message e))), s3))
            | _ \<Rightarrow>
                callGeminiAPI net text s
                  = (Inl (JSError Error
                       (str ''Could not find any working Gemini model. Last error: ''
                        @ (case lastError of
                             None \<Rightarrow> str ''Unknown''
                           | Some e \<Rightarrow> if message e = [] then str ''Unknown'' else message e))),
                     s2)"
    unfolding c using assms(2)
    by (simp add: discover_def no_working_model_def last_error_message_def
          split: option.splits list.splits)
  from a b show ?thesis by simp
qed

theorem discovery_failure_is_no_working_model_witness:
  "fst (callGeminiAPI lists_nothing (str ''page'') quiet)
     = Inl (JSError Error
         (str ''Could not find any working Gemini model. Last error: '' @ not_found))
   \<and> fst (callGeminiAPI (lists_unusable [flash2]) (str ''page'') quiet)
     = Inl (JSError Error
         (str ''Could not find any working Gemini model. Last error: '' @ not_found))"
proof -
  let ?page = "str ''page''"
  let ?st = "\<lambda>s. setStatus (str ''Finding compatible model...'') (str ''warning'') s"
  let ?ta = "try_models lists_nothing (modelsToTry quiet) ?page None quiet"
  let ?tb = "try_models (lists_unusable [flash2]) (modelsToTry quiet) ?page None quiet"
  let ?ca = "checkModels lists_nothing (?st (snd ?ta))"
  let ?cb = "checkModels (lists_unusable [flash2]) (?st (snd ?tb))"
  let ?e = "JSError Error not_found"
  have ta: "?ta = (Finished (Some ?e), snd ?ta)"
    by (rule prod_eqI) (simp_all add: run_defs)
  have tb: "?tb = (Finished (Some ?e), snd ?tb)"
    by (rule prod_eqI) (simp_all add: run_defs)
  have ca: "?ca = (None, snd ?ca)"
    by (rule prod_eqI) (simp_all add: run_defs)
  have cb: "?cb = (Some [str ''gemini-2.0-flash''], snd ?cb)"
    by (rule prod_eqI) (simp_all add: run_defs)
  let ?gb = "tryGenerateContent (lists_unusable [flash2]) (str ''gemini-2.0-flash'') ?page (snd ?cb)"
  have gb: "?gb = (Inl ?e, snd ?gb)"
    by (rule prod_eqI) (simp_all add: run_defs)
  have ne: "message ?e \<noteq> []" by (simp add: not_found_def str_def)
  from discovery_failure_is_no_working_model [OF ta ca] ne
  have 1: "fst (callGeminiAPI lists_nothing ?page quiet)
     = Inl (JSError Error
         (str ''Could not find any working Gemini model. Last error: '' @ not_found))"
    by simp
  from discovery_failure_is_no_working_model [OF tb cb] gb ne
  have 2: "fst (callGeminiAPI (lists_unusable [flash2]) ?page quiet)
     = Inl (JSError Error
         (str ''Could not find any working Gemini model. Last error: '' @ not_found))"
    by simp
  from 1 2 show ?thesis by simp
qed

section \<open>Discovery that finds models\<close>

text \<open>
  Claim C6. When the loop over the candidate models has ended without a result and the
  listing succeeds, \<open>checkModels\<close> returns the names of exactly those listed models whose
  \<open>supportedGenerationMethods\<close> include \<open>generateContent\<close>, in the order of the listing,
  each through \<open>replace("models/", "")\<close>: a name that starts with \<open>models/\<close> loses that
  prefix, a name without \<open>models/\<close> is kept as it is. The generation attempt that
  follows is for the first of these names, and it is the only one.
\<close>

theorem discovery_filters_and_strips:
  assumes "try_models net (modelsToTry s) text None s = (Finished lastError, s1)"
    and "API_KEY s \<noteq> []"
    and "net (requests s1) (list_request s1) = Inr resp"
    and "ok resp" and "json resp = Inr d" and "models d = Some ms"
    and "\<forall>m \<in> set ms. capable m \<longrightarrow> name m \<noteq> None"
  shows "fst (checkModels net (setStatus (str ''Finding compatible model...'') (str ''warning'') s1))
           = Some (map (\<lambda>m. str_replace (the (name m)) (str ''models/'') [])
                    (filter (\<lambda>m. \<exists>methods. supportedGenerationMethods m = Some methods
                                   \<and> str ''generateContent'' \<in> set methods) ms))
         \<and> (\<forall>n. str_replace (str ''models/'' @ n) (str ''models/'') [] = n)
         \<and> (\<forall>n. \<not> str_includes n (str ''models/'') \<longrightarrow> str_replace n (str ''models/'') [] = n)
         \<and> (\<forall>fallbackModel others.
               fst (checkModels net
                     (setStatus (str ''Finding compatible model...'') (str ''warning'') s1))
                 = Some (fallbackModel # others) \<longrightarrow>
               requests (snd (callGeminiAPI net text s))
                 = requests s1 @ [list_request s1, generate_request fallbackModel text s1])"
proof -
  let ?s = "setStatus (str ''Finding compatible model...'') (str ''warning'') s1"
  have key: "API_KEY ?s \<noteq> []" using assms(1,2) try_models_keeps(2) by simp
  have cap: "filter capable ms = filter (\<lambda>m. \<exists>methods. supportedGenerationMethods m = Some methods
                                   \<and> str ''generateContent'' \<in> set methods) ms"
    by (rule filter_cong) (simp_all add: capable_iff)
  have "\<forall>m \<in> set (filter capable ms). name m \<noteq> None" using assms(7) by simp
  then have names: "model_names (filter capable ms)
      = Inr (map (\<lambda>m. str_replace (the (name m)) (str ''models/'') []) (filter capable ms))"
    by (rule model_names_named)
  have cm: "checkModels net ?s
      = (Some (map (\<lambda>m. str_replace (the (name m)) (str ''models/'') []) (filter capable ms)),
         s1\<lparr>statusText := statusText ?s, statusBackground := statusBackground ?s,
            statusColor := statusColor ?s, requests := requests s1 @ [list_request s1]\<rparr>)"
    using assms(3-6) names key
    by (simp add: checkModels_eq checkModels_try_def) (simp add: setStatus_def Let_def)
  have 1: "fst (checkModels net ?s)
           = Some (map (\<lambda>m. str_replace (the (name m)) (str ''models/'') [])
                    (filter (\<lambda>m. \<exists>methods. supportedGenerationMethods m = Some methods
                                   \<and> str ''generateContent'' \<in> set methods) ms))"
    using cm cap by simp
  have 2: "\<forall>n. str_replace (str ''models/'' @ n) (str ''models/'') [] = n"
    by (simp add: str_replace_prefix)
  have 3: "\<forall>n. \<not> str_includes n (str ''models/'') \<longrightarrow> str_replace n (str ''models/'') [] = n"
    by (simp add: str_replace_absent)
  have 4: "\<forall>fallbackModel others.
               fst (checkModels net ?s) = Some (fallbackModel # others) \<longrightarrow>
               requests (snd (callGeminiAPI net text s))
                 = requests s1 @ [list_request s1, generate_request fallbackModel text s1]"
  proof (intro allI impI)
    fix fallbackModel others
    assume f: "fst (checkModels net ?s) = Some (fallbackModel # others)"
    let ?s2 = "s1\<lparr>statusText := statusText ?s, statusBackground := statusBackground ?s,
            statusColor := statusColor ?s, requests := requests s1 @ [list_request s1]\<rparr>"
    from f cm have c: "checkModels net ?s = (Some (fallbackModel # others), ?s2)" by simp
    have g: "generate_request fallbackModel text ?s2 = generate_request fallbackModel text s1"
      by (simp add: generate_request_def endpoint_def)
    have "requests (snd (discover net text lastError s1))
            = requests s1 @ [list_request s1, generate_request fallbackModel text s1]"
      by (cases "read_generation (net (requests ?s2) (generate_request fallbackModel text ?s2))")
         (simp_all add: discover_def c tryGenerateContent_eq g del: setStatus_keeps)
    then show "requests (snd (callGeminiAPI net text s))
                 = requests s1 @ [list_request s1, generate_request fallbackModel text s1]"
      using assms(1) by (simp add: callGeminiAPI_finished)
  qed
  from 1 2 3 4 show ?thesis by blast
qed

theorem discovery_filters_and_strips_witness:
  "fst (checkModels (lists [embedding_only, flash2, pro2])
         (setStatus (str ''Finding compatible model...'') (str ''warning'')
            (snd (try_models (lists [embedding_only, flash2, pro2]) (modelsToTry quiet)
                    (str ''page'') None quiet))))
     = Some [str ''gemini-2.0-flash'', str ''gemini-2.0-pro'']
   \<and> map url (requests (snd (callGeminiAPI (lists [embedding_only, flash2, pro2]) (str ''page'') quiet)))
     = map (\<lambda>m. endpoint m quiet) preferredModels
       @ [url (list_request quiet), endpoint (str ''gemini-2.0-flash'') quiet]"
proof -
  let ?page = "str ''page''"
  let ?ms = "[embedding_only, flash2, pro2]"
  let ?net = "lists ?ms"
  let ?t = "try_models ?net (modelsToTry quiet) ?page None quiet"
  let ?s1 = "snd ?t"
  let ?d = "\<lparr>error = None, candidates = None, models = Some ?ms\<rparr>"
  have t: "?t = (Finished (Some (JSError Error not_found)), ?s1)"
    by (rule prod_eqI) (simp_all add: run_defs)
  have k: "API_KEY quiet \<noteq> []" by (simp add: quiet_def str_def)
  have n: "?net (requests ?s1) (list_request ?s1) = Inr (listing_response ?ms)"
    by (simp add: lists_def list_request_def)
  have o: "ok (listing_response ?ms)" and j: "json (listing_response ?ms) = Inr ?d"
    by (simp_all add: listing_response_def)
  have m: "models ?d = Some ?ms" by simp
  have nm: "\<forall>m \<in> set ?ms. capable m \<longrightarrow> name m \<noteq> None"
    by (simp add: embedding_only_def flash2_def pro2_def)
  note th = discovery_filters_and_strips [OF t k n o j m nm]
  from th have 1: "fst (checkModels ?net
         (setStatus (str ''Finding compatible model...'') (str ''warning'') ?s1))
     = Some [str ''gemini-2.0-flash'', str ''gemini-2.0-pro'']"
    by (simp add: embedding_only_def flash2_def pro2_def str_def)
  from th 1 have "requests (snd (callGeminiAPI ?net ?page quiet))
     = requests ?s1 @ [list_request ?s1, generate_request (str ''gemini-2.0-flash'') ?page ?s1]"
    by blast
  then have 2: "map url (requests (snd (callGeminiAPI ?net ?page quiet)))
     = map (\<lambda>m. endpoint m quiet) preferredModels
       @ [url (list_request quiet), endpoint (str ''gemini-2.0-flash'') quiet]"
    by (simp add: run_defs)
  from 1 2 show ?thesis by simp
qed

section \<open>What is written to validModelName\<close>




section \<open>What validModelName is used for, and when it changes\<close>




end
